theory Spec2Isabelle
  imports Complex_Main "HOL-Library.Word"
begin

section \<open>The configuration store\<close>

text \<open>
  \<^verbatim>\<open>Fire.js\<close> talks to the settings object through \<^verbatim>\<open>get_string\<close>,
  \<^verbatim>\<open>get_boolean\<close>, \<^verbatim>\<open>get_double\<close>, \<^verbatim>\<open>set_double\<close>, \<^verbatim>\<open>set_string\<close> and
  \<^verbatim>\<open>reset\<close>. The store is a key-value store with typed entries: the schema declares
  every key together with its default (which also fixes the type of the key), and a
  second table holds the values written so far. Reading a key gives the written value
  if there is one and the declared default otherwise. A missing or mistyped key is a
  schema error that surfaces to the caller at once. The schema of the extension is not
  part of \<^verbatim>\<open>Fire.js\<close>; it is a field of the store, and the theorems say what they need
  of it. JavaScript numbers are modelled as
  reals: the module stores them, hands them on, and divides a colour channel by 255;
  nothing below depends on rounding.
\<close>

datatype gvalue = VDouble real | VBoolean bool | VString string

datatype error = NoSuchKey string | WrongType string | TypeError

record settings =
  schema :: "string \<rightharpoonup> gvalue"
  stored :: "string \<rightharpoonup> gvalue"
  journal :: "(string \<times> gvalue) list"

text \<open>
  The field \<open>journal\<close> lists the writes the store has accepted, oldest first; it is how
  the number and the order of the writes of a handler are observed.
\<close>

fun same_type :: "gvalue \<Rightarrow> gvalue \<Rightarrow> bool" where
  "same_type (VDouble _) (VDouble _) = True"
| "same_type (VBoolean _) (VBoolean _) = True"
| "same_type (VString _) (VString _) = True"
| "same_type _ _ = False"

definition value_of :: "settings \<Rightarrow> string \<Rightarrow> gvalue option" where
  "value_of s k =
     (case schema s k of
        None \<Rightarrow> None
      | Some d \<Rightarrow> (case stored s k of None \<Rightarrow> Some d | Some v \<Rightarrow> Some v))"

definition get_double :: "settings \<Rightarrow> string \<Rightarrow> error + real" where
  "get_double s k =
     (case value_of s k of
        None \<Rightarrow> Inl (NoSuchKey k)
      | Some (VDouble x) \<Rightarrow> Inr x
      | Some _ \<Rightarrow> Inl (WrongType k))"

definition get_boolean :: "settings \<Rightarrow> string \<Rightarrow> error + bool" where
  "get_boolean s k =
     (case value_of s k of
        None \<Rightarrow> Inl (NoSuchKey k)
      | Some (VBoolean b) \<Rightarrow> Inr b
      | Some _ \<Rightarrow> Inl (WrongType k))"

definition get_string :: "settings \<Rightarrow> string \<Rightarrow> error + string" where
  "get_string s k =
     (case value_of s k of
        None \<Rightarrow> Inl (NoSuchKey k)
      | Some (VString x) \<Rightarrow> Inr x
      | Some _ \<Rightarrow> Inl (WrongType k))"

definition set_value :: "string \<Rightarrow> gvalue \<Rightarrow> settings \<Rightarrow> error + settings" where
  "set_value k v s =
     (case schema s k of
        None \<Rightarrow> Inl (NoSuchKey k)
      | Some d \<Rightarrow>
          if same_type d v
          then Inr (s\<lparr>stored := (stored s)(k \<mapsto> v), journal := journal s @ [(k, v)]\<rparr>)
          else Inl (WrongType k))"

definition set_double :: "string \<Rightarrow> real \<Rightarrow> settings \<Rightarrow> error + settings" where
  "set_double k x s = set_value k (VDouble x) s"

definition set_string :: "string \<Rightarrow> string \<Rightarrow> settings \<Rightarrow> error + settings" where
  "set_string k x s = set_value k (VString x) s"

definition set_boolean :: "string \<Rightarrow> bool \<Rightarrow> settings \<Rightarrow> error + settings" where
  "set_boolean k x s = set_value k (VBoolean x) s"

text \<open>\<^verbatim>\<open>reset(key)\<close> drops the written value, so that the declared default shows again.\<close>

definition reset :: "string \<Rightarrow> settings \<Rightarrow> settings" where
  "reset k s = s\<lparr>stored := (stored s)(k := None)\<rparr>"

text \<open>
  Statements of a handler run one after the other; an error ends the handler.
\<close>

definition and_then :: "error + 'a \<Rightarrow> ('a \<Rightarrow> error + 'b) \<Rightarrow> error + 'b" where
  "and_then r f = (case r of Inl e \<Rightarrow> Inl e | Inr x \<Rightarrow> f x)"

definition is_double_key :: "settings \<Rightarrow> string \<Rightarrow> bool" where
  "is_double_key s k = (case schema s k of Some (VDouble _) \<Rightarrow> True | _ \<Rightarrow> False)"

definition is_string_key :: "settings \<Rightarrow> string \<Rightarrow> bool" where
  "is_string_key s k = (case schema s k of Some (VString _) \<Rightarrow> True | _ \<Rightarrow> False)"

section \<open>Presets\<close>

text \<open>
  The objects of the array \<^verbatim>\<open>presets\<close> in \<^verbatim>\<open>_createFirePresets\<close>. The display names
  go through gettext (\<^verbatim>\<open>_('Default Fire')\<close>); the translation is the parameter \<open>tr\<close>.
\<close>

record preset =
  name :: string
  scale :: real
  speed :: real
  color1 :: string
  color2 :: string
  color3 :: string
  color4 :: string
  color5 :: string

definition presets :: "(string \<Rightarrow> string) \<Rightarrow> preset list" where
  "presets tr =
    [ \<lparr> name = tr ''Default Fire'', scale = 1.0, speed = 0.5,
        color1 = ''rgba(76, 51, 25, 0.0)'',
        color2 = ''rgba(180, 55, 30, 0.7)'',
        color3 = ''rgba(255, 76, 38, 0.9)'',
        color4 = ''rgba(255, 166, 25, 1)'',
        color5 = ''rgba(255, 255, 255, 1)'' \<rparr>,
      \<lparr> name = tr ''Hell Fire'', scale = 1.5, speed = 0.2,
        color1 = ''rgba(0,0,0,0)'',
        color2 = ''rgba(103,7,80,0.5)'',
        color3 = ''rgba(150,0,24,0.9)'',
        color4 = ''rgb(255,200,0)'',
        color5 = ''rgba(255, 255, 255, 1)'' \<rparr>,
      \<lparr> name = tr ''Dark and Smutty'', scale = 1.0, speed = 0.5,
        color1 = ''rgba(0,0,0,0)'',
        color2 = ''rgba(36,3,0,0.5)'',
        color3 = ''rgba(150,0,24,0.9)'',
        color4 = ''rgb(255,177,21)'',
        color5 = ''rgb(255,238,166)'' \<rparr>,
      \<lparr> name = tr ''Cold Breeze'', scale = 1.5, speed = - 0.1,
        color1 = ''rgba(0,110,255,0)'',
        color2 = ''rgba(30,111,180,0.24)'',
        color3 = ''rgba(38,181,255,0.54)'',
        color4 = ''rgba(34,162,255,0.84)'',
        color5 = ''rgb(97,189,255)'' \<rparr>,
      \<lparr> name = tr ''Santa is Coming'', scale = 0.4, speed = - 0.5,
        color1 = ''rgba(0,110,255,0)'',
        color2 = ''rgba(208,233,255,0.24)'',
        color3 = ''rgba(207,235,255,0.84)'',
        color4 = ''rgb(208,243,255)'',
        color5 = ''rgb(255,255,255)'' \<rparr> ]"

text \<open>
  The \<^verbatim>\<open>activate\<close> handler of a preset action: seven typed writes, in the order of the
  source.
\<close>

definition activate :: "preset \<Rightarrow> settings \<Rightarrow> error + settings" where
  "activate p s =
     and_then (set_double ''flame-movement-speed'' (speed p) s) (\<lambda>s.
     and_then (set_double ''flame-scale'' (scale p) s) (\<lambda>s.
     and_then (set_string ''fire-color-1'' (color1 p) s) (\<lambda>s.
     and_then (set_string ''fire-color-2'' (color2 p) s) (\<lambda>s.
     and_then (set_string ''fire-color-3'' (color3 p) s) (\<lambda>s.
     and_then (set_string ''fire-color-4'' (color4 p) s) (\<lambda>s.
     set_string ''fire-color-5'' (color5 p) s))))))"

definition preset_keys :: "string list" where
  "preset_keys =
     [''flame-movement-speed'', ''flame-scale'', ''fire-color-1'', ''fire-color-2'',
      ''fire-color-3'', ''fire-color-4'', ''fire-color-5'']"

text \<open>The schema declares the seven keys of a preset with the types the handler writes.\<close>

definition preset_schema_ok :: "settings \<Rightarrow> bool" where
  "preset_schema_ok s =
     (is_double_key s ''flame-movement-speed'' \<and> is_double_key s ''flame-scale'' \<and>
      is_string_key s ''fire-color-1'' \<and> is_string_key s ''fire-color-2'' \<and>
      is_string_key s ''fire-color-3'' \<and> is_string_key s ''fire-color-4'' \<and>
      is_string_key s ''fire-color-5'')"

text \<open>
  The writes the store accepted during one run of the handler; \<open>None\<close> when the handler
  ended with an error.
\<close>

definition performed_writes :: "preset \<Rightarrow> settings \<Rightarrow> (string \<times> gvalue) list option" where
  "performed_writes p s =
     (case activate p s of
        Inl e \<Rightarrow> None
      | Inr s' \<Rightarrow> Some (drop (length (journal s)) (journal s')))"

text \<open>The handler of the button \<^verbatim>\<open>reset-fire-colors\<close> in \<^verbatim>\<open>getPreferences\<close>.\<close>

definition reset_fire_colors :: "settings \<Rightarrow> settings" where
  "reset_fire_colors s =
     reset ''fire-color-5'' (reset ''fire-color-4'' (reset ''fire-color-3''
       (reset ''fire-color-2'' (reset ''fire-color-1'' s))))"

text \<open>A store used for concrete runs: the nine keys of the effect, with defaults.\<close>

definition example_schema :: "string \<rightharpoonup> gvalue" where
  "example_schema =
     map_of
      [(''fire-animation-time'', VDouble 1500),
       (''flame-movement-speed'', VDouble 0.5),
       (''flame-scale'', VDouble 1.0),
       (''flame-3d-noise'', VBoolean False),
       (''fire-color-1'', VString ''rgba(76, 51, 25, 0.0)''),
       (''fire-color-2'', VString ''rgba(180, 55, 30, 0.7)''),
       (''fire-color-3'', VString ''rgba(255, 76, 38, 0.9)''),
       (''fire-color-4'', VString ''rgba(255, 166, 25, 1)''),
       (''fire-color-5'', VString ''rgba(255, 255, 255, 1)'')]"

definition example_store :: settings where
  "example_store =
     \<lparr> schema = example_schema,
       stored = [''flame-scale'' \<mapsto> VDouble 1.0, ''flame-3d-noise'' \<mapsto> VBoolean True,
                 ''fire-color-2'' \<mapsto> VString ''rgb(1,2,3)''],
       journal = [] \<rparr>"

section \<open>The preset menu\<close>

text \<open>
  \<^verbatim>\<open>'fire' + i\<close> converts the index to its decimal representation.
\<close>

definition digit_char :: "nat \<Rightarrow> char" where
  "digit_char d = ''0123456789'' ! (d mod 10)"

fun string_of_nat :: "nat \<Rightarrow> string" where
  "string_of_nat n =
     (if n < 10 then [digit_char n] else string_of_nat (n div 10) @ [digit_char (n mod 10)])"

declare string_of_nat.simps [simp del]

text \<open>
  A \<^verbatim>\<open>Gio.Menu\<close> is the list of its entries (label, detailed action name), in the order
  they were appended. A \<^verbatim>\<open>Gio.SimpleAction\<close> has a name and the handlers connected to
  its \<^verbatim>\<open>activate\<close> signal. A \<^verbatim>\<open>Gio.SimpleActionGroup\<close> is a table from action names to
  actions: \<^verbatim>\<open>add_action\<close> replaces an action of the same name.
\<close>

type_synonym menu = "(string \<times> string) list"

record action =
  action_name :: string
  handlers :: "(settings \<Rightarrow> error + settings) list"

type_synonym action_group = "string \<rightharpoonup> action"

definition menu_append :: "string \<Rightarrow> string \<Rightarrow> menu \<Rightarrow> menu" where
  "menu_append label detailed m = m @ [(label, detailed)]"

definition SimpleAction_new :: "string \<Rightarrow> action" where
  "SimpleAction_new n = \<lparr> action_name = n, handlers = [] \<rparr>"

definition connect_activate :: "(settings \<Rightarrow> error + settings) \<Rightarrow> action \<Rightarrow> action" where
  "connect_activate h a = a\<lparr>handlers := handlers a @ [h]\<rparr>"

definition add_action :: "action \<Rightarrow> action_group \<Rightarrow> action_group" where
  "add_action a g = g(action_name a \<mapsto> a)"

definition groupName :: string where
  "groupName = ''presets''"

text \<open>
  The body of \<^verbatim>\<open>presets.forEach((preset, i) => ...)\<close>, with the index \<open>i\<close> of the
  element at the head of the list.
\<close>

fun add_presets :: "preset list \<Rightarrow> nat \<Rightarrow> menu \<times> action_group \<Rightarrow> menu \<times> action_group" where
  "add_presets [] i mg = mg"
| "add_presets (preset # rest) i (mnu, grp) =
     (let actionName = ''fire'' @ string_of_nat i;
          mnu' = menu_append (name preset) (groupName @ ''.'' @ actionName) mnu;
          act = connect_activate (activate preset) (SimpleAction_new actionName);
          grp' = add_action act grp
      in add_presets rest (Suc i) (mnu', grp'))"

text \<open>The action the loop body builds for the preset \<open>p\<close> at index \<open>i\<close>.\<close>

definition preset_action :: "nat \<Rightarrow> preset \<Rightarrow> action" where
  "preset_action i p =
     connect_activate (activate p) (SimpleAction_new (''fire'' @ string_of_nat i))"

definition build_menu :: "preset list \<Rightarrow> menu \<times> action_group" where
  "build_menu ps = add_presets ps 0 ([], Map.empty)"















section \<open>The shader\<close>

text \<open>
  \<^verbatim>\<open>ShaderClass\<close> extends the class \<^verbatim>\<open>Shader\<close> of the extension, which extends
  \<^verbatim>\<open>Clutter.ShaderEffect\<close>. Neither is part of \<^verbatim>\<open>Fire.js\<close>. What the subclass uses of
  them is: the table of uniform locations of the compiled program (read by
  \<^verbatim>\<open>get_uniform_location\<close>), the uniform values (written by \<^verbatim>\<open>set_uniform_float\<close>), and
  the two hooks \<^verbatim>\<open>super._init\<close> and \<^verbatim>\<open>super.beginAnimation\<close>. The inherited part of an
  instance records every location query and every uniform write, oldest first, and
  carries whatever else the base class keeps in \<open>hidden\<close>. The two hooks are parameters
  of the model; they act on the inherited part and may fail.
\<close>

type_synonym location = int

type_synonym uniform_write = "location \<times> nat \<times> real list"

record 'b inherited =
  program :: "string \<Rightarrow> location"
  queries :: "string list"
  writes :: "uniform_write list"
  hidden :: 'b

text \<open>
  The elements of the array handed to \<^verbatim>\<open>set_uniform_float\<close> are JavaScript values; the
  binding converts each to a float by the language's number conversion, under which
  \<^verbatim>\<open>true\<close> is 1 and \<^verbatim>\<open>false\<close> is 0.
\<close>

datatype jsval = JSNumber real | JSBoolean bool

fun ToNumber :: "jsval \<Rightarrow> real" where
  "ToNumber (JSNumber x) = x"
| "ToNumber (JSBoolean b) = (if b then 1 else 0)"

definition get_uniform_location :: "string \<Rightarrow> 'b inherited \<Rightarrow> location \<times> 'b inherited" where
  "get_uniform_location n b = (program b n, b\<lparr>queries := queries b @ [n]\<rparr>)"

definition set_uniform_float :: "location \<Rightarrow> nat \<Rightarrow> jsval list \<Rightarrow> 'b inherited \<Rightarrow> 'b inherited" where
  "set_uniform_float l n vs b = b\<lparr>writes := writes b @ [(l, n, map ToNumber vs)]\<rparr>"

text \<open>A \<^verbatim>\<open>Clutter.Color\<close>: four channels of eight bits each.\<close>

record color =
  red :: "8 word"
  green :: "8 word"
  blue :: "8 word"
  alpha :: "8 word"

record 'b shader =
  inherited :: "'b inherited"
  uGradient :: "location list"
  u3DNoise :: location
  uScale :: location
  uMovementSpeed :: location

text \<open>The constructor \<^verbatim>\<open>_init(effect)\<close>; \<open>super_init\<close> is the outcome of \<^verbatim>\<open>super._init(effect)\<close>.\<close>

definition init :: "error + 'b inherited \<Rightarrow> error + 'b shader" where
  "init super_init =
     and_then super_init (\<lambda>b.
       let (g1, b) = get_uniform_location ''uGradient1'' b;
           (g2, b) = get_uniform_location ''uGradient2'' b;
           (g3, b) = get_uniform_location ''uGradient3'' b;
           (g4, b) = get_uniform_location ''uGradient4'' b;
           (g5, b) = get_uniform_location ''uGradient5'' b;
           (n3, b) = get_uniform_location ''u3DNoise'' b;
           (sc, b) = get_uniform_location ''uScale'' b;
           (ms, b) = get_uniform_location ''uMovementSpeed'' b
       in Inr \<lparr> inherited = b, uGradient = [g1, g2, g3, g4, g5],
                 u3DNoise = n3, uScale = sc, uMovementSpeed = ms \<rparr>)"

text \<open>
  \<^verbatim>\<open>this._uGradient[i - 1]\<close>: an index past the end of the array gives no location, and
  the call fails.
\<close>

definition element :: "'a list \<Rightarrow> nat \<Rightarrow> error + 'a" where
  "element xs i = (if i < length xs then Inr (xs ! i) else Inl TypeError)"

definition channel :: "8 word \<Rightarrow> jsval" where
  "channel c = JSNumber (real (unat c) / 255)"

text \<open>The array \<^verbatim>\<open>[c.red / 255, c.green / 255, c.blue / 255, c.alpha / 255]\<close>.\<close>

definition rgba :: "color \<Rightarrow> jsval list" where
  "rgba c = [channel (red c), channel (green c), channel (blue c), channel (alpha c)]"

text \<open>
  The loop \<^verbatim>\<open>for (let i = 1; i <= 5; i++)\<close> of \<^verbatim>\<open>beginAnimation\<close>. The parser
  \<^verbatim>\<open>Clutter.Color.from_string\<close> is the parameter \<open>from_string\<close>; it returns a success flag
  and a colour, and the code takes the colour (\<^verbatim>\<open>[1]\<close>) whatever the flag says.
\<close>

function load_gradient ::
  "(string \<Rightarrow> bool \<times> color) \<Rightarrow> settings \<Rightarrow> nat \<Rightarrow> 'b shader \<Rightarrow> error + 'b shader" where
  "load_gradient from_string st i this =
     (if i \<le> 5 then
        (case get_string st (''fire-color-'' @ string_of_nat i) of
           Inl e \<Rightarrow> Inl e
         | Inr str \<Rightarrow>
             (case element (uGradient this) (i - 1) of
                Inl e \<Rightarrow> Inl e
              | Inr l \<Rightarrow>
                  load_gradient from_string st (i + 1)
                    (this\<lparr>inherited :=
                       set_uniform_float l 4 (rgba (snd (from_string str)))
                         (inherited this)\<rparr>)))
      else Inr this)"
  by pat_completeness auto
termination
  by (relation "measure (\<lambda>(f, st, i, this). 6 - i)") auto

declare load_gradient.simps [simp del]

definition beginAnimation ::
  "('a \<Rightarrow> settings \<Rightarrow> bool \<Rightarrow> 'b inherited \<Rightarrow> error + 'b inherited) \<Rightarrow>
   (string \<Rightarrow> bool \<times> color) \<Rightarrow> 'a \<Rightarrow> settings \<Rightarrow> bool \<Rightarrow> 'b shader \<Rightarrow> error + 'b shader" where
  "beginAnimation super_beginAnimation from_string actor st forOpening this =
     and_then (super_beginAnimation actor st forOpening (inherited this)) (\<lambda>b.
     and_then (load_gradient from_string st 1 (this\<lparr>inherited := b\<rparr>)) (\<lambda>this.
     and_then (get_boolean st ''flame-3d-noise'') (\<lambda>noise.
     let this = this\<lparr>inherited :=
                  set_uniform_float (u3DNoise this) 1 [JSBoolean noise] (inherited this)\<rparr> in
     and_then (get_double st ''flame-scale'') (\<lambda>sc.
     let this = this\<lparr>inherited :=
                  set_uniform_float (uScale this) 1 [JSNumber sc] (inherited this)\<rparr> in
     and_then (get_double st ''flame-movement-speed'') (\<lambda>ms.
     Inr (this\<lparr>inherited :=
            set_uniform_float (uMovementSpeed this) 1 [JSNumber ms] (inherited this)\<rparr>))))))"

definition uniform_names :: "string list" where
  "uniform_names =
     [''uGradient1'', ''uGradient2'', ''uGradient3'', ''uGradient4'', ''uGradient5'',
      ''u3DNoise'', ''uScale'', ''uMovementSpeed'']"

text \<open>The locations an instance holds, in the order of \<open>uniform_names\<close>.\<close>

definition held_locations :: "'b shader \<Rightarrow> location list" where
  "held_locations this = uGradient this @ [u3DNoise this, uScale this, uMovementSpeed this]"

text \<open>The configuration holds a value of the right type under each key the shader reads.\<close>

definition has_string :: "settings \<Rightarrow> string \<Rightarrow> bool" where
  "has_string st k = (case value_of st k of Some (VString _) \<Rightarrow> True | _ \<Rightarrow> False)"

definition has_boolean :: "settings \<Rightarrow> string \<Rightarrow> bool" where
  "has_boolean st k = (case value_of st k of Some (VBoolean _) \<Rightarrow> True | _ \<Rightarrow> False)"

definition has_double :: "settings \<Rightarrow> string \<Rightarrow> bool" where
  "has_double st k = (case value_of st k of Some (VDouble _) \<Rightarrow> True | _ \<Rightarrow> False)"

definition valid_config :: "settings \<Rightarrow> bool" where
  "valid_config st =
     (has_string st ''fire-color-1'' \<and> has_string st ''fire-color-2'' \<and>
      has_string st ''fire-color-3'' \<and> has_string st ''fire-color-4'' \<and>
      has_string st ''fire-color-5'' \<and> has_boolean st ''flame-3d-noise'' \<and>
      has_double st ''flame-scale'' \<and> has_double st ''flame-movement-speed'')"

definition in_unit_interval :: "real \<Rightarrow> bool" where
  "in_unit_interval x = (0 \<le> x \<and> x \<le> 1)"

text \<open>Several calls of \<^verbatim>\<open>beginAnimation\<close> on one instance, each with its own arguments.\<close>

fun begin_all ::
  "('a \<Rightarrow> settings \<Rightarrow> bool \<Rightarrow> 'b inherited \<Rightarrow> error + 'b inherited) \<Rightarrow>
   (string \<Rightarrow> bool \<times> color) \<Rightarrow> ('a \<times> settings \<times> bool) list \<Rightarrow> 'b shader \<Rightarrow> error + 'b shader" where
  "begin_all super_begin fs [] this = Inr this"
| "begin_all super_begin fs ((actor, st, forOpening) # calls) this =
     (case beginAnimation super_begin fs actor st forOpening this of
        Inl e \<Rightarrow> Inl e
      | Inr this' \<Rightarrow> begin_all super_begin fs calls this')"

subsection \<open>A running instance next to the settings object\<close>

text \<open>
  The argument \<^verbatim>\<open>settings\<close> of \<^verbatim>\<open>beginAnimation\<close> is the settings object itself, not a
  copy of its values: its values change whenever anyone writes the store, and a handler
  connected to it runs after every write the store accepts. A handler connected for an
  instance acts on that instance, with the values the store has at that moment. The
  constructor \<^verbatim>\<open>_init\<close> is not handed the settings object. \<^verbatim>\<open>beginAnimation\<close> hands it to
  the hook of the base class, which may connect handlers and returns the object as it
  leaves it; after that the body calls \<^verbatim>\<open>get_string\<close>, \<^verbatim>\<open>get_boolean\<close> and
  \<^verbatim>\<open>get_double\<close> on it and nothing else. The method below is \<^verbatim>\<open>beginAnimation\<close> with the
  settings object threaded through.
\<close>

type_synonym 'b connection = "settings \<Rightarrow> 'b shader \<Rightarrow> 'b shader"

record 'b live =
  current :: settings
  connected :: "'b connection list"


text \<open>
  A write or a reset of the store by anyone. A write that the store refuses leaves the
  values as they were and runs no handler.
\<close>

datatype store_event =
  SetDouble string real
| SetString string string
| SetBoolean string bool
| Reset string

fun apply_event :: "store_event \<Rightarrow> settings \<Rightarrow> settings" where
  "apply_event (SetDouble k x) st = (case set_double k x st of Inl e \<Rightarrow> st | Inr st' \<Rightarrow> st')"
| "apply_event (SetString k x) st = (case set_string k x st of Inl e \<Rightarrow> st | Inr st' \<Rightarrow> st')"
| "apply_event (SetBoolean k x) st = (case set_boolean k x st of Inl e \<Rightarrow> st | Inr st' \<Rightarrow> st')"
| "apply_event (Reset k) st = reset k st"

fun accepted :: "store_event \<Rightarrow> settings \<Rightarrow> bool" where
  "accepted (SetDouble k x) st = (case set_double k x st of Inl e \<Rightarrow> False | Inr st' \<Rightarrow> True)"
| "accepted (SetString k x) st = (case set_string k x st of Inl e \<Rightarrow> False | Inr st' \<Rightarrow> True)"
| "accepted (SetBoolean k x) st = (case set_boolean k x st of Inl e \<Rightarrow> False | Inr st' \<Rightarrow> True)"
| "accepted (Reset k) st = True"

record 'b world =
  settings_object :: "'b live"
  running :: "'b shader"

definition store_step :: "store_event \<Rightarrow> 'b world \<Rightarrow> 'b world" where
  "store_step e w =
     (let obj = settings_object w;
          st = apply_event e (current obj)
      in \<lparr> settings_object = obj\<lparr>current := st\<rparr>,
           running = (if accepted e (current obj)
                      then fold (\<lambda>h this. h st this) (connected obj) (running w)
                      else running w) \<rparr>)"


subsection \<open>The factory\<close>

text \<open>
  The effect object with what \<^verbatim>\<open>createShader\<close> touches: the field \<^verbatim>\<open>_ShaderClass\<close>
  (unset at first), the classes registered with \<^verbatim>\<open>GObject.registerClass\<close> so far, and the
  objects created with \<^verbatim>\<open>new\<close>. A class is known by its position in the registry, an
  object by its position among the objects. The factory returns the reference of the new
  object, or the error of the constructor; the registration stays in either case.
\<close>

record 'b fire =
  ShaderClass :: "nat option"
  registry :: "string list"
  objects :: "'b shader list"

definition registerClass :: "string \<Rightarrow> 'b fire \<Rightarrow> nat \<times> 'b fire" where
  "registerClass n this = (length (registry this), this\<lparr>registry := registry this @ [n]\<rparr>)"

definition createShader :: "error + 'b inherited \<Rightarrow> 'b fire \<Rightarrow> (error + nat) \<times> 'b fire" where
  "createShader super_init this =
     (let this =
            (if ShaderClass this = None
             then (let (cls, this) = registerClass ''ShaderClass'' this
                   in this\<lparr>ShaderClass := Some cls\<rparr>)
             else this)
      in case init super_init of
           Inl e \<Rightarrow> (Inl e, this)
         | Inr obj \<Rightarrow> (Inr (length (objects this)), this\<lparr>objects := objects this @ [obj]\<rparr>))"

fun create_many :: "error + 'b inherited \<Rightarrow> nat \<Rightarrow> 'b fire \<Rightarrow> (error + nat) list \<times> 'b fire" where
  "create_many super_init 0 this = ([], this)"
| "create_many super_init (Suc n) this =
     (let (r, this') = createShader super_init this;
          (rs, this'') = create_many super_init n this'
      in (r # rs, this''))"

definition new_fire :: "'b fire" where
  "new_fire = \<lparr> ShaderClass = None, registry = [], objects = [] \<rparr>"

fun successes :: "(error + 'a) list \<Rightarrow> 'a list" where
  "successes [] = []"
| "successes (Inl e # rs) = successes rs"
| "successes (Inr x # rs) = x # successes rs"

subsection \<open>Concrete parameters for runs\<close>

definition example_program :: "string \<Rightarrow> location" where
  "example_program n =
     (case map_of
        [(''uGradient1'', 0), (''uGradient2'', 1), (''uGradient3'', 2), (''uGradient4'', 3),
         (''uGradient5'', 4), (''u3DNoise'', 5), (''uScale'', 6), (''uMovementSpeed'', 7),
         (''uForOpening'', 8)] n of
        Some l \<Rightarrow> l
      | None \<Rightarrow> - 1)"

definition example_base :: "unit inherited" where
  "example_base = \<lparr> program = example_program, queries = [], writes = [], hidden = () \<rparr>"

definition example_instance :: "unit shader" where
  "example_instance =
     \<lparr> inherited = example_base\<lparr>queries := uniform_names\<rparr>,
       uGradient = [0, 1, 2, 3, 4], u3DNoise = 5, uScale = 6, uMovementSpeed = 7 \<rparr>"

definition example_super_begin :: "unit \<Rightarrow> settings \<Rightarrow> bool \<Rightarrow> unit inherited \<Rightarrow> error + unit inherited" where
  "example_super_begin actor st forOpening b =
     Inr (set_uniform_float (program b ''uForOpening'') 1 [JSBoolean forOpening] b)"



text \<open>A handler that writes the scale again whenever the store changes.\<close>

definition rebind_scale :: "unit connection" where
  "rebind_scale st this =
     (case get_double st ''flame-scale'' of
        Inl e \<Rightarrow> this
      | Inr sc \<Rightarrow>
          this\<lparr>inherited := set_uniform_float (uScale this) 1 [JSNumber sc] (inherited this)\<rparr>)"


definition example_from_string :: "string \<Rightarrow> bool \<times> color" where
  "example_from_string str =
     (case map_of
        [(''rgba(76, 51, 25, 0.0)'', \<lparr> red = 76, green = 51, blue = 25, alpha = 0 \<rparr>),
         (''rgb(1,2,3)'', \<lparr> red = 1, green = 2, blue = 3, alpha = 255 \<rparr>),
         (''rgba(255, 76, 38, 0.9)'', \<lparr> red = 255, green = 76, blue = 38, alpha = 229 \<rparr>),
         (''rgba(255, 166, 25, 1)'', \<lparr> red = 255, green = 166, blue = 25, alpha = 255 \<rparr>),
         (''rgba(255, 255, 255, 1)'', \<lparr> red = 255, green = 255, blue = 255, alpha = 255 \<rparr>)] str of
        Some c \<Rightarrow> (True, c)
      | None \<Rightarrow> (False, \<lparr> red = 0, green = 0, blue = 0, alpha = 0 \<rparr>))"

section \<open>Properties of the store\<close>

lemma and_then_Inr:
  "and_then r f = Inr y \<longleftrightarrow> (\<exists>x. r = Inr x \<and> f x = Inr y)"
  by (cases r) (simp_all add: and_then_def)

lemma and_then_simps:
  "and_then (Inr x) f = f x" "and_then (Inl e) f = Inl e"
  by (simp_all add: and_then_def)

lemma set_value_frame:
  "set_value k v s = Inr s' \<Longrightarrow> k' \<noteq> k \<Longrightarrow> value_of s' k' = value_of s k'"
  by (auto simp: set_value_def value_of_def split: option.splits if_splits)

lemma set_double_declared:
  "is_double_key s k \<Longrightarrow>
   set_double k x s =
     Inr (s\<lparr>stored := (stored s)(k \<mapsto> VDouble x), journal := journal s @ [(k, VDouble x)]\<rparr>)"
  by (auto simp: set_double_def set_value_def is_double_key_def
           split: option.splits gvalue.splits)

lemma set_string_declared:
  "is_string_key s k \<Longrightarrow>
   set_string k x s =
     Inr (s\<lparr>stored := (stored s)(k \<mapsto> VString x), journal := journal s @ [(k, VString x)]\<rparr>)"
  by (auto simp: set_string_def set_value_def is_string_key_def
           split: option.splits gvalue.splits)

lemma is_key_update [simp]:
  "is_double_key (s\<lparr>stored := m, journal := j\<rparr>) k = is_double_key s k"
  "is_string_key (s\<lparr>stored := m, journal := j\<rparr>) k = is_string_key s k"
  by (simp_all add: is_double_key_def is_string_key_def)

lemma value_of_stored:
  "value_of (s\<lparr>stored := m, journal := j\<rparr>) k =
     (case schema s k of
        None \<Rightarrow> None
      | Some d \<Rightarrow> (case m k of None \<Rightarrow> Some d | Some v \<Rightarrow> Some v))"
  by (simp add: value_of_def split: option.splits)

text \<open>On a schema that declares the seven keys, the handler runs through.\<close>

lemma activate_result:
  assumes "preset_schema_ok s"
  shows "activate p s =
    Inr (s\<lparr>stored := (stored s)
             (''flame-movement-speed'' \<mapsto> VDouble (speed p),
              ''flame-scale'' \<mapsto> VDouble (scale p),
              ''fire-color-1'' \<mapsto> VString (color1 p),
              ''fire-color-2'' \<mapsto> VString (color2 p),
              ''fire-color-3'' \<mapsto> VString (color3 p),
              ''fire-color-4'' \<mapsto> VString (color4 p),
              ''fire-color-5'' \<mapsto> VString (color5 p)),
           journal := journal s @
             [(''flame-movement-speed'', VDouble (speed p)), (''flame-scale'', VDouble (scale p)),
              (''fire-color-1'', VString (color1 p)), (''fire-color-2'', VString (color2 p)),
              (''fire-color-3'', VString (color3 p)), (''fire-color-4'', VString (color4 p)),
              (''fire-color-5'', VString (color5 p))]\<rparr>)"
  using assms
  by (simp add: activate_def preset_schema_ok_def set_double_declared set_string_declared
        and_then_simps)

lemma example_store_ok: "preset_schema_ok example_store"
  by (simp add: preset_schema_ok_def example_store_def example_schema_def
        is_double_key_def is_string_key_def)

lemma hell_fire: "presets tr ! Suc 0 =
  \<lparr> name = tr ''Hell Fire'', scale = 1.5, speed = 0.2,
    color1 = ''rgba(0,0,0,0)'', color2 = ''rgba(103,7,80,0.5)'',
    color3 = ''rgba(150,0,24,0.9)'', color4 = ''rgb(255,200,0)'',
    color5 = ''rgba(255, 255, 255, 1)'' \<rparr>"
  by (simp add: presets_def)

section \<open>Applying a preset\<close>

text \<open>
  Claim C2. Whatever the store held before, once the handler of a preset has run,
  reading \<^verbatim>\<open>flame-scale\<close>, \<^verbatim>\<open>flame-movement-speed\<close> and \<^verbatim>\<open>fire-color-1\<close> to
  \<^verbatim>\<open>fire-color-5\<close> gives exactly the values of the preset; nothing of the earlier
  values is left. The store is any store whose schema declares the seven keys with
  their types; the preset is any preset, so each one of the list.
\<close>

theorem preset_readback:
  assumes "preset_schema_ok s"
  shows "\<exists>s'. activate p s = Inr s' \<and>
           get_double s' ''flame-scale'' = Inr (scale p) \<and>
           get_double s' ''flame-movement-speed'' = Inr (speed p) \<and>
           get_string s' ''fire-color-1'' = Inr (color1 p) \<and>
           get_string s' ''fire-color-2'' = Inr (color2 p) \<and>
           get_string s' ''fire-color-3'' = Inr (color3 p) \<and>
           get_string s' ''fire-color-4'' = Inr (color4 p) \<and>
           get_string s' ''fire-color-5'' = Inr (color5 p)"
proof -
  from assms have d: "is_double_key s ''flame-movement-speed''" "is_double_key s ''flame-scale''"
    and c: "is_string_key s ''fire-color-1''" "is_string_key s ''fire-color-2''"
      "is_string_key s ''fire-color-3''" "is_string_key s ''fire-color-4''"
      "is_string_key s ''fire-color-5''"
    by (simp_all add: preset_schema_ok_def)
  from d obtain d1 d2 where sd: "schema s ''flame-movement-speed'' = Some (VDouble d1)"
     "schema s ''flame-scale'' = Some (VDouble d2)"
    by (auto simp: is_double_key_def split: option.splits gvalue.splits)
  from c obtain c1 c2 c3 c4 c5 where sc: "schema s ''fire-color-1'' = Some (VString c1)"
    "schema s ''fire-color-2'' = Some (VString c2)"
    "schema s ''fire-color-3'' = Some (VString c3)"
    "schema s ''fire-color-4'' = Some (VString c4)"
    "schema s ''fire-color-5'' = Some (VString c5)"
    by (auto simp: is_string_key_def split: option.splits gvalue.splits)
  show ?thesis
    unfolding activate_result [OF assms]
    by (rule exI, intro conjI, rule refl)
       (simp_all add: get_double_def get_string_def value_of_stored sd sc)
qed

text \<open>
  The run of the specification: the store holds \<^verbatim>\<open>flame-scale\<close> = 1.0, the preset
  "Hell Fire" is applied, and the reads give 1.5 and 0.2.
\<close>

theorem preset_readback_witness:
  "preset_schema_ok example_store \<and>
   get_double example_store ''flame-scale'' = Inr 1.0 \<and>
   (\<exists>s'. activate (presets id ! 1) example_store = Inr s' \<and>
      get_double s' ''flame-scale'' = Inr 1.5 \<and>
      get_double s' ''flame-movement-speed'' = Inr 0.2 \<and>
      get_string s' ''fire-color-4'' = Inr ''rgb(255,200,0)'')"
proof -
  have before: "get_double example_store ''flame-scale'' = Inr 1.0"
    by (simp add: get_double_def value_of_def example_store_def example_schema_def)
  from preset_readback [OF example_store_ok, of "presets id ! 1"]
  show ?thesis
    using example_store_ok before by (auto simp: hell_fire)
qed

text \<open>
  Claim C3, as the code has it. A preset carries seven values (one movement speed, one
  scale, five colours), and the handler writes all seven, each as a plain overwrite of
  its key, in the order of the source; the only check is the typed write of the store.
\<close>

theorem preset_writes_seven:
  assumes "preset_schema_ok s"
  shows "performed_writes p s =
     Some [(''flame-movement-speed'', VDouble (speed p)), (''flame-scale'', VDouble (scale p)),
      (''fire-color-1'', VString (color1 p)), (''fire-color-2'', VString (color2 p)),
      (''fire-color-3'', VString (color3 p)), (''fire-color-4'', VString (color4 p)),
      (''fire-color-5'', VString (color5 p))]"
  by (simp add: performed_writes_def activate_result [OF assms])

theorem preset_writes_seven_witness:
  "preset_schema_ok example_store \<and>
   performed_writes (presets id ! 1) example_store =
     Some [(''flame-movement-speed'', VDouble 0.2), (''flame-scale'', VDouble 1.5),
      (''fire-color-1'', VString ''rgba(0,0,0,0)''),
      (''fire-color-2'', VString ''rgba(103,7,80,0.5)''),
      (''fire-color-3'', VString ''rgba(150,0,24,0.9)''),
      (''fire-color-4'', VString ''rgb(255,200,0)''),
      (''fire-color-5'', VString ''rgba(255, 255, 255, 1)'')]"
  using preset_writes_seven [OF example_store_ok, of "presets id ! 1"] example_store_ok
  by (simp add: hell_fire)

text \<open>
  Claim C3, as it is written, has the handler write six values. On the store of the
  example the handler of "Hell Fire" performs seven writes, not six.
\<close>

theorem preset_writes_six_counterexample:
  "map_option length (performed_writes (presets id ! 1) example_store) = Some 7 \<and>
   map_option length (performed_writes (presets id ! 1) example_store) \<noteq> Some 6"
  by (simp add: performed_writes_def activate_result [OF example_store_ok])

text \<open>
  Claim C10. A run of the handler of a preset leaves every key other than the seven of
  \<open>preset_keys\<close> with the value it had; on a schema that declares the seven keys the
  handler does run through. In particular \<^verbatim>\<open>flame-3d-noise\<close> and
  \<^verbatim>\<open>fire-animation-time\<close> keep their values.
\<close>

theorem preset_frame:
  assumes "k \<notin> set preset_keys"
  shows "(\<forall>s'. activate p s = Inr s' \<longrightarrow> value_of s' k = value_of s k) \<and>
         (preset_schema_ok s \<longrightarrow> (\<exists>s'. activate p s = Inr s'))"
proof (intro conjI allI impI)
  fix s'
  assume run: "activate p s = Inr s'"
  then obtain s1 s2 s3 s4 s5 s6 where
    st: "set_value ''flame-movement-speed'' (VDouble (speed p)) s = Inr s1"
      "set_value ''flame-scale'' (VDouble (scale p)) s1 = Inr s2"
      "set_value ''fire-color-1'' (VString (color1 p)) s2 = Inr s3"
      "set_value ''fire-color-2'' (VString (color2 p)) s3 = Inr s4"
      "set_value ''fire-color-3'' (VString (color3 p)) s4 = Inr s5"
      "set_value ''fire-color-4'' (VString (color4 p)) s5 = Inr s6"
      "set_value ''fire-color-5'' (VString (color5 p)) s6 = Inr s'"
    unfolding activate_def and_then_Inr set_double_def set_string_def by blast
  from assms have k: "k \<noteq> ''flame-movement-speed''" "k \<noteq> ''flame-scale''"
    "k \<noteq> ''fire-color-1''" "k \<noteq> ''fire-color-2''" "k \<noteq> ''fire-color-3''"
    "k \<noteq> ''fire-color-4''" "k \<noteq> ''fire-color-5''"
    by (auto simp: preset_keys_def)
  show "value_of s' k = value_of s k"
    using st k by (simp add: set_value_frame)
next
  assume "preset_schema_ok s"
  then show "\<exists>s'. activate p s = Inr s'"
    by (simp add: activate_result)
qed

theorem preset_frame_witness:
  "''flame-3d-noise'' \<notin> set preset_keys \<and> ''fire-animation-time'' \<notin> set preset_keys \<and>
   preset_schema_ok example_store \<and>
   (\<exists>s'. activate (presets id ! 1) example_store = Inr s' \<and>
      value_of s' ''flame-3d-noise'' = Some (VBoolean True) \<and>
      value_of example_store ''flame-3d-noise'' = Some (VBoolean True) \<and>
      value_of s' ''fire-animation-time'' = Some (VDouble 1500) \<and>
      value_of example_store ''fire-animation-time'' = Some (VDouble 1500))"
proof -
  have n: "''flame-3d-noise'' \<notin> set preset_keys" and t: "''fire-animation-time'' \<notin> set preset_keys"
    by (simp_all add: preset_keys_def)
  have v: "value_of example_store ''flame-3d-noise'' = Some (VBoolean True)"
    "value_of example_store ''fire-animation-time'' = Some (VDouble 1500)"
    by (simp_all add: value_of_def example_store_def example_schema_def)
  from preset_frame [OF n, of "presets id ! 1" example_store]
    preset_frame [OF t, of "presets id ! 1" example_store]
  show ?thesis
    using n t v example_store_ok by auto
qed

section \<open>Resetting the colours\<close>

text \<open>
  Claim C9. Whatever the store held before, after the handler of the reset button each
  of the keys \<^verbatim>\<open>fire-color-1\<close> to \<^verbatim>\<open>fire-color-5\<close> reads as the default the schema
  declares for it. The handler resets the five keys one after the other, and the schema
  is not touched.
\<close>

theorem reset_restores_defaults:
  "value_of (reset_fire_colors s) ''fire-color-1'' = schema s ''fire-color-1'' \<and>
   value_of (reset_fire_colors s) ''fire-color-2'' = schema s ''fire-color-2'' \<and>
   value_of (reset_fire_colors s) ''fire-color-3'' = schema s ''fire-color-3'' \<and>
   value_of (reset_fire_colors s) ''fire-color-4'' = schema s ''fire-color-4'' \<and>
   value_of (reset_fire_colors s) ''fire-color-5'' = schema s ''fire-color-5'' \<and>
   schema (reset_fire_colors s) = schema s"
  by (simp add: reset_fire_colors_def reset_def value_of_def split: option.splits)

section \<open>The menu of presets\<close>

lemma digit_char_code:
  assumes "d < 10"
  shows "of_char (digit_char d) = (48 + d :: nat)"
proof -
  from assms have "d = 0 \<or> d = 1 \<or> d = 2 \<or> d = 3 \<or> d = 4 \<or> d = 5 \<or> d = 6
    \<or> d = 7 \<or> d = 8 \<or> d = 9"
    by arith
  then show ?thesis
    by (elim disjE) (simp_all add: digit_char_def)
qed

lemma digit_char_inj:
  assumes "a < 10" "b < 10" "digit_char a = digit_char b"
  shows "a = b"
proof -
  have "(48 + a :: nat) = of_char (digit_char a)"
    using assms(1) by (simp only: digit_char_code)
  also have "\<dots> = of_char (digit_char b)"
    by (simp only: assms(3))
  also have "\<dots> = 48 + b"
    using assms(2) by (simp only: digit_char_code)
  finally show ?thesis by simp
qed

lemma string_of_nat_nonempty: "string_of_nat n \<noteq> []" "[] \<noteq> string_of_nat n"
  by (subst string_of_nat.simps, simp)+

lemma string_of_nat_inj: "string_of_nat m = string_of_nat n \<Longrightarrow> m = n"
proof (induction m arbitrary: n rule: string_of_nat.induct)
  case (1 m)
  show ?case
  proof (cases "m < 10")
    case small_m: True
    show ?thesis
    proof (cases "n < 10")
      case True
      with small_m "1.prems" show ?thesis
        by (simp add: string_of_nat.simps [of m] string_of_nat.simps [of n] digit_char_inj)
    next
      case False
      with small_m "1.prems" show ?thesis
        by (simp add: string_of_nat.simps [of m] string_of_nat.simps [of n] string_of_nat_nonempty)
    qed
  next
    case big_m: False
    show ?thesis
    proof (cases "n < 10")
      case True
      with big_m "1.prems" show ?thesis
        by (simp add: string_of_nat.simps [of m] string_of_nat.simps [of n] string_of_nat_nonempty)
    next
      case False
      with big_m "1.prems" have eq: "string_of_nat (m div 10) = string_of_nat (n div 10)"
        and dg: "digit_char (m mod 10) = digit_char (n mod 10)"
        by (simp_all add: string_of_nat.simps [of m] string_of_nat.simps [of n])
      from "1.IH" [OF big_m eq] have "m div 10 = n div 10" .
      moreover from dg have "m mod 10 = n mod 10"
        by (intro digit_char_inj) simp_all
      ultimately show ?thesis
        by (metis div_mult_mod_eq)
    qed
  qed
qed


lemma add_presets_menu:
  "fst (add_presets ps i (m, g)) =
     m @ map (\<lambda>(j, p). (name p, ''presets.fire'' @ string_of_nat j)) (enumerate i ps)"
  by (induction ps arbitrary: i m g) (simp_all add: menu_append_def groupName_def Let_def)

lemma add_presets_other:
  "(\<And>j. j < length ps \<Longrightarrow> k \<noteq> ''fire'' @ string_of_nat (i + j)) \<Longrightarrow>
   snd (add_presets ps i (m, g)) k = g k"
proof (induction ps arbitrary: i m g)
  case Nil
  then show ?case by simp
next
  case (Cons p ps)
  have "k \<noteq> ''fire'' @ string_of_nat (Suc i + j)" if "j < length ps" for j
    using Cons.prems [of "Suc j"] that by simp
  moreover have "k \<noteq> ''fire'' @ string_of_nat i"
    using Cons.prems [of 0] by simp
  ultimately show ?case
    by (simp add: Cons.IH add_action_def connect_activate_def SimpleAction_new_def Let_def)
qed

lemma add_presets_action:
  "j < length ps \<Longrightarrow>
   snd (add_presets ps i (m, g)) (''fire'' @ string_of_nat (i + j)) = Some (preset_action (i + j) (ps ! j))"
proof (induction ps arbitrary: i j m g)
  case Nil
  then show ?case by simp
next
  case (Cons p ps)
  show ?case
  proof (cases j)
    case 0
    have "''fire'' @ string_of_nat i \<noteq> ''fire'' @ string_of_nat (Suc i + j')" for j'
      using string_of_nat_inj [of i "Suc i + j'"] by auto
    then show ?thesis
      using 0
      by (simp add: add_presets_other add_action_def connect_activate_def
            SimpleAction_new_def preset_action_def Let_def)
  next
    case (Suc j')
    with Cons.prems have "j' < length ps" by simp
    from Cons.IH [OF this, of "Suc i"] show ?thesis
      using Suc by (simp add: Let_def)
  qed
qed


text \<open>
  Claim C4. For a list of \<open>N\<close> presets the builder appends \<open>N\<close> menu entries, in the
  order of the list and with no sorting: entry \<open>i\<close> shows the name of preset \<open>i\<close> and
  points to the action \<^verbatim>\<open>presets.fire\<close>\<open>i\<close>. The group holds exactly the \<open>N\<close> actions
  \<^verbatim>\<open>fire0\<close> to \<^verbatim>\<open>fire\<close>\<open>(N-1)\<close>, one for each preset, and the single handler of
  action \<open>i\<close> is the handler that applies preset \<open>i\<close>.
\<close>

theorem menu_of_presets:
  "fst (build_menu ps) =
     map (\<lambda>i. (name (ps ! i), ''presets.fire'' @ string_of_nat i)) [0..<length ps] \<and>
   dom (snd (build_menu ps)) = (\<lambda>i. ''fire'' @ string_of_nat i) ` {..<length ps} \<and>
   card (dom (snd (build_menu ps))) = length ps \<and>
   (\<forall>i<length ps. snd (build_menu ps) (''fire'' @ string_of_nat i) =
       Some \<lparr> action_name = ''fire'' @ string_of_nat i, handlers = [activate (ps ! i)] \<rparr>)"
proof -
  let ?nm = "\<lambda>i. ''fire'' @ string_of_nat i"
  have menu: "fst (build_menu ps) =
     map (\<lambda>i. (name (ps ! i), ''presets.fire'' @ string_of_nat i)) [0..<length ps]"
    by (rule nth_equalityI)
       (simp_all add: build_menu_def add_presets_menu nth_enumerate_eq)
  have act: "snd (build_menu ps) (?nm i) = Some (preset_action i (ps ! i))" if "i < length ps" for i
    using add_presets_action [OF that, of 0] by (simp add: build_menu_def)
  have other: "snd (build_menu ps) k = None" if "k \<notin> ?nm ` {..<length ps}" for k
    unfolding build_menu_def using that by (subst add_presets_other) auto
  have dom: "dom (snd (build_menu ps)) = ?nm ` {..<length ps}"
  proof (rule set_eqI)
    fix k
    show "k \<in> dom (snd (build_menu ps)) \<longleftrightarrow> k \<in> ?nm ` {..<length ps}"
    proof (cases "k \<in> ?nm ` {..<length ps}")
      case True
      then obtain i where "i < length ps" "k = ?nm i" by blast
      with act [of i] True show ?thesis by (simp add: dom_def)
    next
      case False
      with other [of k] show ?thesis by (simp add: dom_def)
    qed
  qed
  have "inj ?nm"
    by (auto simp: inj_def dest: string_of_nat_inj)
  then have "card (?nm ` {..<length ps}) = length ps"
    by (simp add: card_image inj_on_def inj_def)
  with menu act dom show ?thesis
    by (simp add: preset_action_def connect_activate_def SimpleAction_new_def)
qed

lemma digits_small:
  "string_of_nat 0 = ''0''" "string_of_nat 1 = ''1''" "string_of_nat 2 = ''2''"
  "string_of_nat 3 = ''3''" "string_of_nat 4 = ''4''" "string_of_nat 5 = ''5''"
  "string_of_nat (Suc 0) = ''1''"
  by (simp_all add: string_of_nat.simps digit_char_def)

lemma presets_length: "length (presets tr) = 5"
  by (simp add: presets_def)

theorem menu_of_presets_witness:
  "(1::nat) < length (presets id) \<and>
   map snd (fst (build_menu (presets id))) =
     [''presets.fire0'', ''presets.fire1'', ''presets.fire2'', ''presets.fire3'',
      ''presets.fire4''] \<and>
   map fst (fst (build_menu (presets id))) =
     [''Default Fire'', ''Hell Fire'', ''Dark and Smutty'', ''Cold Breeze'', ''Santa is Coming''] \<and>
   card (dom (snd (build_menu (presets id)))) = 5 \<and>
   snd (build_menu (presets id)) ''fire1'' =
     Some \<lparr> action_name = ''fire1'', handlers = [activate (presets id ! 1)] \<rparr>"
proof -
  note built = menu_of_presets [of "presets id"]
  have len: "(1::nat) < length (presets id)"
    by (simp add: presets_length)
  have idx: "[0..<5] = [0, 1, 2, 3, 4 :: nat]"
    by code_simp
  have entries: "map (\<lambda>i. (name (presets id ! i), ''presets.fire'' @ string_of_nat i)) [0, 1, 2, 3, 4] =
     [(''Default Fire'', ''presets.fire0''), (''Hell Fire'', ''presets.fire1''),
      (''Dark and Smutty'', ''presets.fire2''), (''Cold Breeze'', ''presets.fire3''),
      (''Santa is Coming'', ''presets.fire4'')]"
    by (simp add: digits_small presets_def)
  from built have "fst (build_menu (presets id)) =
     map (\<lambda>i. (name (presets id ! i), ''presets.fire'' @ string_of_nat i))
       [0..<length (presets id)]"
    by blast
  then have menu: "fst (build_menu (presets id)) =
     [(''Default Fire'', ''presets.fire0''), (''Hell Fire'', ''presets.fire1''),
      (''Dark and Smutty'', ''presets.fire2''), (''Cold Breeze'', ''presets.fire3''),
      (''Santa is Coming'', ''presets.fire4'')]"
    by (simp only: presets_length idx entries)
  from built have "card (dom (snd (build_menu (presets id)))) = length (presets id)"
    by blast
  then have card: "card (dom (snd (build_menu (presets id)))) = 5"
    by (simp only: presets_length)
  from built len have "snd (build_menu (presets id)) (''fire'' @ string_of_nat 1) =
       Some \<lparr> action_name = ''fire'' @ string_of_nat 1, handlers = [activate (presets id ! 1)] \<rparr>"
    by blast
  then have act: "snd (build_menu (presets id)) ''fire1'' =
     Some \<lparr> action_name = ''fire1'', handlers = [activate (presets id ! 1)] \<rparr>"
    by (simp add: digits_small)
  from len menu card act show ?thesis
    by simp
qed

section \<open>Attaching the menu\<close>










section \<open>The uniforms at the start of an animation\<close>

lemma init_result:
  "init (Inr b) =
     Inr \<lparr> inherited = b\<lparr>queries := queries b @ uniform_names\<rparr>,
           uGradient = map (program b) [''uGradient1'', ''uGradient2'', ''uGradient3'',
                                         ''uGradient4'', ''uGradient5''],
           u3DNoise = program b ''u3DNoise'', uScale = program b ''uScale'',
           uMovementSpeed = program b ''uMovementSpeed'' \<rparr>"
  by (simp add: init_def and_then_simps get_uniform_location_def uniform_names_def)

lemma load_gradient_step:
  assumes "i \<le> 5" "get_string st (''fire-color-'' @ string_of_nat i) = Inr str"
    "i - 1 < length (uGradient this)"
  shows "load_gradient fs st i this =
     load_gradient fs st (i + 1)
       (this\<lparr>inherited := set_uniform_float (uGradient this ! (i - 1)) 4 (rgba (snd (fs str)))
          (inherited this)\<rparr>)"
  using assms by (subst load_gradient.simps) (simp add: element_def)

lemma load_gradient_done: "\<not> i \<le> 5 \<Longrightarrow> load_gradient fs st i this = Inr this"
  by (subst load_gradient.simps) simp

lemma load_gradient_result:
  assumes c: "get_string st ''fire-color-1'' = Inr c1" "get_string st ''fire-color-2'' = Inr c2"
      "get_string st ''fire-color-3'' = Inr c3" "get_string st ''fire-color-4'' = Inr c4"
      "get_string st ''fire-color-5'' = Inr c5"
    and g: "uGradient this = [l1, l2, l3, l4, l5]"
  shows "load_gradient fs st 1 this =
     Inr (this\<lparr>inherited := (inherited this)\<lparr>writes := writes (inherited this) @
        [(l1, 4, map ToNumber (rgba (snd (fs c1)))),
         (l2, 4, map ToNumber (rgba (snd (fs c2)))),
         (l3, 4, map ToNumber (rgba (snd (fs c3)))),
         (l4, 4, map ToNumber (rgba (snd (fs c4)))),
         (l5, 4, map ToNumber (rgba (snd (fs c5))))]\<rparr>\<rparr>)"
proof -
  have d: "string_of_nat (Suc 0) = ''1''" "string_of_nat (Suc (Suc 0)) = ''2''"
    "string_of_nat (Suc (Suc (Suc 0))) = ''3''"
    "string_of_nat (Suc (Suc (Suc (Suc 0)))) = ''4''"
    "string_of_nat (Suc (Suc (Suc (Suc (Suc 0))))) = ''5''"
    by (simp_all add: string_of_nat.simps digit_char_def)
  show ?thesis
    apply (subst load_gradient_step [where str = c1]; (simp add: d c g)?)
    apply (subst load_gradient_step [where str = c2]; (simp add: d c g)?)
    apply (subst load_gradient_step [where str = c3]; (simp add: d c g)?)
    apply (subst load_gradient_step [where str = c4]; (simp add: d c g)?)
    apply (subst load_gradient_step [where str = c5]; (simp add: d c g)?)
    apply (subst load_gradient_done; simp add: set_uniform_float_def)
    done
qed


lemma begin_result:
  assumes c: "get_string st ''fire-color-1'' = Inr c1" "get_string st ''fire-color-2'' = Inr c2"
      "get_string st ''fire-color-3'' = Inr c3" "get_string st ''fire-color-4'' = Inr c4"
      "get_string st ''fire-color-5'' = Inr c5"
    and n: "get_boolean st ''flame-3d-noise'' = Inr noise"
    and sc: "get_double st ''flame-scale'' = Inr sc"
    and ms: "get_double st ''flame-movement-speed'' = Inr ms"
    and g: "uGradient this = [l1, l2, l3, l4, l5]"
    and base: "super_begin actor st forOpening (inherited this) = Inr b"
  shows "beginAnimation super_begin fs actor st forOpening this =
     Inr (this\<lparr>inherited := b\<lparr>writes := writes b @
        [(l1, 4, map ToNumber (rgba (snd (fs c1)))),
         (l2, 4, map ToNumber (rgba (snd (fs c2)))),
         (l3, 4, map ToNumber (rgba (snd (fs c3)))),
         (l4, 4, map ToNumber (rgba (snd (fs c4)))),
         (l5, 4, map ToNumber (rgba (snd (fs c5)))),
         (u3DNoise this, 1, [ToNumber (JSBoolean noise)]),
         (uScale this, 1, [sc]),
         (uMovementSpeed this, 1, [ms])]\<rparr>\<rparr>)"
proof -
  have "uGradient (this\<lparr>inherited := b\<rparr>) = [l1, l2, l3, l4, l5]"
    using g by simp
  from load_gradient_result [OF c this, of fs]
  show ?thesis
    by (simp add: beginAnimation_def base and_then_simps n sc ms set_uniform_float_def)
qed

lemma has_string_get: "has_string st k \<Longrightarrow> \<exists>x. get_string st k = Inr x"
  by (auto simp: has_string_def get_string_def split: option.splits gvalue.splits)

lemma has_boolean_get: "has_boolean st k \<Longrightarrow> \<exists>x. get_boolean st k = Inr x"
  by (auto simp: has_boolean_def get_boolean_def split: option.splits gvalue.splits)

lemma has_double_get: "has_double st k \<Longrightarrow> \<exists>x. get_double st k = Inr x"
  by (auto simp: has_double_def get_double_def split: option.splits gvalue.splits)

lemma channel_unit: "in_unit_interval (ToNumber (channel c))"
proof -
  have "unat c < 2 ^ LENGTH(8)"
    by (rule unsigned_less)
  then have "unat c \<le> 255" by simp
  then have "real (unat c) \<le> real 255" by (rule of_nat_mono)
  moreover have "0 \<le> real (unat c)" by (rule of_nat_0_le_iff)
  ultimately show ?thesis
    by (simp add: in_unit_interval_def channel_def)
qed

lemma rgba_unit:
  "length (map ToNumber (rgba c)) = 4 \<and> list_all in_unit_interval (map ToNumber (rgba c))"
  by (simp add: rgba_def channel_unit)

lemma one_write_each:
  assumes "map fst ws = ls" "distinct ls" "l \<in> set ls"
  shows "length (filter (\<lambda>w. fst w = l) ws) = 1"
proof -
  have "length (filter (\<lambda>w. fst w = l) ws) = length (filter (\<lambda>x. x = l) (map fst ws))"
    by (simp add: filter_map comp_def)
  also have "\<dots> = count_list ls l"
    unfolding assms(1) by (induction ls) auto
  also have "\<dots> = 1"
    using assms(2,3) by (induction ls) auto
  finally show ?thesis .
qed

text \<open>
  Claim C1. Let the configuration hold a string under each of \<^verbatim>\<open>fire-color-1\<close> to
  \<^verbatim>\<open>fire-color-5\<close>, a boolean under \<^verbatim>\<open>flame-3d-noise\<close> and doubles under
  \<^verbatim>\<open>flame-scale\<close> and \<^verbatim>\<open>flame-movement-speed\<close>, let \<open>this\<close> be a freshly constructed
  instance, and let the hook of the base class return. Then \<^verbatim>\<open>beginAnimation\<close> returns,
  and what it adds to the uniform writes of the base class is eight writes: one to the
  location of each of \<^verbatim>\<open>uGradient1\<close> to \<^verbatim>\<open>uGradient5\<close>, \<^verbatim>\<open>u3DNoise\<close>, \<^verbatim>\<open>uScale\<close> and
  \<^verbatim>\<open>uMovementSpeed\<close>, in this order. Where the program gives the eight names eight
  different locations, each of these locations is written exactly once. Each gradient
  value has four components, each a channel divided by 255 and so between 0 and 1; this
  holds for whatever colour the parser returns. The value written to \<^verbatim>\<open>u3DNoise\<close> is 0
  or 1, and it is \<open>[1]\<close> when \<^verbatim>\<open>flame-3d-noise\<close> is true.
\<close>

theorem begin_animation_writes:
  assumes cfg: "valid_config st"
    and fresh: "init (Inr b0) = Inr this"
    and base: "super_begin actor st forOpening (inherited this) = Inr b"
  shows "\<exists>this' c1 c2 c3 c4 c5 noise sc ms.
     beginAnimation super_begin fs actor st forOpening this = Inr this' \<and>
     get_string st ''fire-color-1'' = Inr c1 \<and> get_string st ''fire-color-2'' = Inr c2 \<and>
     get_string st ''fire-color-3'' = Inr c3 \<and> get_string st ''fire-color-4'' = Inr c4 \<and>
     get_string st ''fire-color-5'' = Inr c5 \<and> get_boolean st ''flame-3d-noise'' = Inr noise \<and>
     get_double st ''flame-scale'' = Inr sc \<and> get_double st ''flame-movement-speed'' = Inr ms \<and>
     writes (inherited this') = writes b @
        [(program b0 ''uGradient1'', 4, map ToNumber (rgba (snd (fs c1)))),
         (program b0 ''uGradient2'', 4, map ToNumber (rgba (snd (fs c2)))),
         (program b0 ''uGradient3'', 4, map ToNumber (rgba (snd (fs c3)))),
         (program b0 ''uGradient4'', 4, map ToNumber (rgba (snd (fs c4)))),
         (program b0 ''uGradient5'', 4, map ToNumber (rgba (snd (fs c5)))),
         (program b0 ''u3DNoise'', 1, [ToNumber (JSBoolean noise)]),
         (program b0 ''uScale'', 1, [sc]),
         (program b0 ''uMovementSpeed'', 1, [ms])] \<and>
     (distinct (map (program b0) uniform_names) \<longrightarrow>
        (\<forall>n \<in> set uniform_names.
           length (filter (\<lambda>w. fst w = program b0 n)
             (drop (length (writes b)) (writes (inherited this')))) = 1)) \<and>
     (\<forall>c. length (map ToNumber (rgba c)) = 4 \<and>
          list_all in_unit_interval (map ToNumber (rgba c))) \<and>
     ToNumber (JSBoolean noise) \<in> {0, 1} \<and>
     (noise \<longrightarrow> [ToNumber (JSBoolean noise)] = [1])"
proof -
  from cfg obtain c1 c2 c3 c4 c5 noise sc ms where
    c: "get_string st ''fire-color-1'' = Inr c1" "get_string st ''fire-color-2'' = Inr c2"
      "get_string st ''fire-color-3'' = Inr c3" "get_string st ''fire-color-4'' = Inr c4"
      "get_string st ''fire-color-5'' = Inr c5"
    and n: "get_boolean st ''flame-3d-noise'' = Inr noise"
    and sc: "get_double st ''flame-scale'' = Inr sc"
    and ms: "get_double st ''flame-movement-speed'' = Inr ms"
    unfolding valid_config_def
    by (metis has_string_get has_boolean_get has_double_get)
  from fresh have this_eq: "this =
     \<lparr> inherited = b0\<lparr>queries := queries b0 @ uniform_names\<rparr>,
       uGradient = map (program b0) [''uGradient1'', ''uGradient2'', ''uGradient3'',
                                      ''uGradient4'', ''uGradient5''],
       u3DNoise = program b0 ''u3DNoise'', uScale = program b0 ''uScale'',
       uMovementSpeed = program b0 ''uMovementSpeed'' \<rparr>"
    by (simp add: init_result)
  then have g: "uGradient this = [program b0 ''uGradient1'', program b0 ''uGradient2'',
      program b0 ''uGradient3'', program b0 ''uGradient4'', program b0 ''uGradient5'']"
    and h: "u3DNoise this = program b0 ''u3DNoise''" "uScale this = program b0 ''uScale''"
      "uMovementSpeed this = program b0 ''uMovementSpeed''"
    by simp_all
  let ?new = "[(program b0 ''uGradient1'', 4::nat, map ToNumber (rgba (snd (fs c1)))),
         (program b0 ''uGradient2'', 4, map ToNumber (rgba (snd (fs c2)))),
         (program b0 ''uGradient3'', 4, map ToNumber (rgba (snd (fs c3)))),
         (program b0 ''uGradient4'', 4, map ToNumber (rgba (snd (fs c4)))),
         (program b0 ''uGradient5'', 4, map ToNumber (rgba (snd (fs c5)))),
         (program b0 ''u3DNoise'', 1, [ToNumber (JSBoolean noise)]),
         (program b0 ''uScale'', 1, [sc]),
         (program b0 ''uMovementSpeed'', 1, [ms])]"
  let ?this' = "this\<lparr>inherited := b\<lparr>writes := writes b @ ?new\<rparr>\<rparr>"
  have run: "beginAnimation super_begin fs actor st forOpening this = Inr ?this'"
    using begin_result [where super_begin = super_begin and actor = actor
        and forOpening = forOpening and fs = fs, OF c n sc ms g base]
    by (simp only: h)
  have w: "writes (inherited ?this') = writes b @ ?new"
    by simp
  have targets: "map fst ?new = map (program b0) uniform_names"
    by (simp add: uniform_names_def)
  have once: "length (filter (\<lambda>w. fst w = program b0 n)
             (drop (length (writes b)) (writes (inherited ?this')))) = 1"
    if "distinct (map (program b0) uniform_names)" "n \<in> set uniform_names" for n
  proof -
    have d: "drop (length (writes b)) (writes (inherited ?this')) = ?new"
      by simp
    have "program b0 n \<in> set (map (program b0) uniform_names)"
      using that(2) by simp
    then show ?thesis
      unfolding d by (rule one_write_each [OF targets that(1)])
  qed
  have noise01: "ToNumber (JSBoolean noise) \<in> {0, 1}"
    "noise \<longrightarrow> [ToNumber (JSBoolean noise)] = [1]"
    by simp_all
  from run c n sc ms w once rgba_unit noise01 show ?thesis
    by blast
qed


lemma example_config: "valid_config example_store"
  by (simp add: valid_config_def has_string_def has_boolean_def has_double_def value_of_def
        example_store_def example_schema_def)

lemma example_reads:
  "get_string example_store ''fire-color-1'' = Inr ''rgba(76, 51, 25, 0.0)''"
  "get_string example_store ''fire-color-2'' = Inr ''rgb(1,2,3)''"
  "get_string example_store ''fire-color-3'' = Inr ''rgba(255, 76, 38, 0.9)''"
  "get_string example_store ''fire-color-4'' = Inr ''rgba(255, 166, 25, 1)''"
  "get_string example_store ''fire-color-5'' = Inr ''rgba(255, 255, 255, 1)''"
  "get_boolean example_store ''flame-3d-noise'' = Inr True"
  "get_double example_store ''flame-scale'' = Inr 1"
  "get_double example_store ''flame-movement-speed'' = Inr 0.5"
  by (simp_all add: get_string_def get_boolean_def get_double_def value_of_def
        example_store_def example_schema_def)

lemma example_fresh: "init (Inr example_base) = Inr example_instance"
  by (simp add: init_result example_instance_def example_base_def example_program_def
        uniform_names_def)

lemma example_colors:
  "map ToNumber (rgba (snd (example_from_string ''rgba(76, 51, 25, 0.0)''))) = [76 / 255, 51 / 255, 25 / 255, 0]"
  "map ToNumber (rgba (snd (example_from_string ''rgb(1,2,3)''))) = [1 / 255, 2 / 255, 3 / 255, 1]"
  "map ToNumber (rgba (snd (example_from_string ''rgba(255, 76, 38, 0.9)''))) = [1, 76 / 255, 38 / 255, 229 / 255]"
  "map ToNumber (rgba (snd (example_from_string ''rgba(255, 166, 25, 1)''))) = [1, 166 / 255, 25 / 255, 1]"
  "map ToNumber (rgba (snd (example_from_string ''rgba(255, 255, 255, 1)''))) = [1, 1, 1, 1]"
  by (simp_all add: example_from_string_def rgba_def channel_def)

lemma example_base_begin:
  "example_super_begin () example_store True (inherited example_instance) =
     Inr (set_uniform_float 8 1 [JSBoolean True] (inherited example_instance))"
  by (simp add: example_super_begin_def example_instance_def example_base_def example_program_def)

lemma example_distinct: "distinct (map (program example_base) uniform_names)"
  by (simp add: example_base_def example_program_def uniform_names_def)

theorem begin_animation_writes_witness:
  "valid_config example_store \<and>
   init (Inr example_base) = Inr example_instance \<and>
   example_super_begin () example_store True (inherited example_instance) =
     Inr (set_uniform_float 8 1 [JSBoolean True] (inherited example_instance)) \<and>
   distinct (map (program example_base) uniform_names) \<and>
   ''u3DNoise'' \<in> set uniform_names \<and>
   get_boolean example_store ''flame-3d-noise'' = Inr True \<and>
   (\<exists>this'. beginAnimation example_super_begin example_from_string () example_store True
               example_instance = Inr this' \<and>
      writes (inherited this') =
        [(8, 1, [1]),
         (0, 4, [76 / 255, 51 / 255, 25 / 255, 0]),
         (1, 4, [1 / 255, 2 / 255, 3 / 255, 1]),
         (2, 4, [1, 76 / 255, 38 / 255, 229 / 255]),
         (3, 4, [1, 166 / 255, 25 / 255, 1]),
         (4, 4, [1, 1, 1, 1]),
         (5, 1, [1]), (6, 1, [1]), (7, 1, [1 / 2])] \<and>
      length (filter (\<lambda>w. fst w = 5) (drop 1 (writes (inherited this')))) = 1)"
proof -
  have names: "''u3DNoise'' \<in> set uniform_names"
    by (simp add: uniform_names_def)
  have locs: "program example_base ''uGradient1'' = 0" "program example_base ''uGradient2'' = 1"
    "program example_base ''uGradient3'' = 2" "program example_base ''uGradient4'' = 3"
    "program example_base ''uGradient5'' = 4" "program example_base ''u3DNoise'' = 5"
    "program example_base ''uScale'' = 6" "program example_base ''uMovementSpeed'' = 7"
    by (simp_all add: example_base_def example_program_def)
  have before: "writes (set_uniform_float 8 1 [JSBoolean True] (inherited example_instance)) =
      [(8, 1, [1])]"
    by (simp add: set_uniform_float_def example_instance_def example_base_def)
  from begin_animation_writes [where super_begin = example_super_begin and actor = "()"
      and forOpening = True and fs = example_from_string,
      OF example_config example_fresh example_base_begin]
  obtain this' c1 c2 c3 c4 c5 noise sc ms where
    run: "beginAnimation example_super_begin example_from_string () example_store True
            example_instance = Inr this'"
    and rd: "get_string example_store ''fire-color-1'' = Inr c1"
      "get_string example_store ''fire-color-2'' = Inr c2"
      "get_string example_store ''fire-color-3'' = Inr c3"
      "get_string example_store ''fire-color-4'' = Inr c4"
      "get_string example_store ''fire-color-5'' = Inr c5"
      "get_boolean example_store ''flame-3d-noise'' = Inr noise"
      "get_double example_store ''flame-scale'' = Inr sc"
      "get_double example_store ''flame-movement-speed'' = Inr ms"
    and w: "writes (inherited this') =
        writes (set_uniform_float 8 1 [JSBoolean True] (inherited example_instance)) @
        [(program example_base ''uGradient1'', 4, map ToNumber (rgba (snd (example_from_string c1)))),
         (program example_base ''uGradient2'', 4, map ToNumber (rgba (snd (example_from_string c2)))),
         (program example_base ''uGradient3'', 4, map ToNumber (rgba (snd (example_from_string c3)))),
         (program example_base ''uGradient4'', 4, map ToNumber (rgba (snd (example_from_string c4)))),
         (program example_base ''uGradient5'', 4, map ToNumber (rgba (snd (example_from_string c5)))),
         (program example_base ''u3DNoise'', 1, [ToNumber (JSBoolean noise)]),
         (program example_base ''uScale'', 1, [sc]),
         (program example_base ''uMovementSpeed'', 1, [ms])]"
    and once: "distinct (map (program example_base) uniform_names) \<longrightarrow>
        (\<forall>n \<in> set uniform_names.
           length (filter (\<lambda>w. fst w = program example_base n)
             (drop (length (writes (set_uniform_float 8 1 [JSBoolean True]
                (inherited example_instance)))) (writes (inherited this')))) = 1)"
    by blast
  from rd have vals: "c1 = ''rgba(76, 51, 25, 0.0)''" "c2 = ''rgb(1,2,3)''"
    "c3 = ''rgba(255, 76, 38, 0.9)''" "c4 = ''rgba(255, 166, 25, 1)''"
    "c5 = ''rgba(255, 255, 255, 1)''" "noise = True" "sc = 1" "ms = 1 / 2"
    by (simp_all add: example_reads)
  have w': "writes (inherited this') =
        [(8, 1, [1]),
         (0, 4, [76 / 255, 51 / 255, 25 / 255, 0]),
         (1, 4, [1 / 255, 2 / 255, 3 / 255, 1]),
         (2, 4, [1, 76 / 255, 38 / 255, 229 / 255]),
         (3, 4, [1, 166 / 255, 25 / 255, 1]),
         (4, 4, [1, 1, 1, 1]),
         (5, 1, [1]), (6, 1, [1]), (7, 1, [1 / 2])]"
    unfolding w before vals locs example_colors by simp
  from once example_distinct names
  have "length (filter (\<lambda>w. fst w = program example_base ''u3DNoise'')
             (drop (length (writes (set_uniform_float 8 1 [JSBoolean True]
                (inherited example_instance)))) (writes (inherited this')))) = 1"
    by blast
  then have one: "length (filter (\<lambda>w. fst w = 5) (drop 1 (writes (inherited this')))) = 1"
    unfolding before locs by simp
  from example_config example_fresh example_base_begin example_distinct names
    example_reads(6) run w' one
  show ?thesis by blast
qed

section \<open>Uniform locations\<close>

lemma held_locations_inherited [simp]:
  "held_locations (this\<lparr>inherited := b\<rparr>) = held_locations this"
  by (simp add: held_locations_def)

lemma load_gradient_keeps:
  "load_gradient fs st i this = Inr this' \<Longrightarrow>
   held_locations this' = held_locations this \<and>
   queries (inherited this') = queries (inherited this)"
proof (induction fs st i this rule: load_gradient.induct)
  case (1 fs st i this)
  show ?case
  proof (cases "i \<le> 5")
    case False
    with "1.prems" show ?thesis
      by (simp add: load_gradient.simps [of fs st i this])
  next
    case True
    with "1.prems" obtain str l where
      s: "get_string st (''fire-color-'' @ string_of_nat i) = Inr str"
      and l: "element (uGradient this) (i - 1) = Inr l"
      and r: "load_gradient fs st (i + 1)
                (this\<lparr>inherited := set_uniform_float l 4 (rgba (snd (fs str))) (inherited this)\<rparr>) =
              Inr this'"
      by (auto simp: load_gradient.simps [of fs st i this] split: sum.splits)
    from "1.IH" [OF True s l r] show ?thesis
      by (simp add: set_uniform_float_def)
  qed
qed

lemma begin_keeps:
  assumes "beginAnimation super_begin fs actor st forOpening this = Inr this'"
  shows "held_locations this' = held_locations this \<and>
         (\<exists>b. super_begin actor st forOpening (inherited this) = Inr b \<and>
              queries (inherited this') = queries b)"
proof -
  from assms obtain b t noise sc ms where
    b: "super_begin actor st forOpening (inherited this) = Inr b"
    and t: "load_gradient fs st 1 (this\<lparr>inherited := b\<rparr>) = Inr t"
    and this': "this' = t\<lparr>inherited :=
        set_uniform_float (uMovementSpeed t) 1 [JSNumber ms]
          (set_uniform_float (uScale t) 1 [JSNumber sc]
            (set_uniform_float (u3DNoise t) 1 [JSBoolean noise] (inherited t)))\<rparr>"
    unfolding beginAnimation_def and_then_Inr Let_def by auto
  from load_gradient_keeps [OF t] b show ?thesis
    unfolding this' by (simp add: set_uniform_float_def)
qed

lemma begin_all_keeps:
  "begin_all super_begin fs calls this = Inr this' \<Longrightarrow>
   held_locations this' = held_locations this"
proof (induction calls arbitrary: this)
  case Nil
  then show ?case by simp
next
  case (Cons call calls)
  obtain actor st forOpening where call: "call = (actor, st, forOpening)"
    by (cases call)
  from Cons.prems obtain t where
    t: "beginAnimation super_begin fs actor st forOpening this = Inr t"
    and r: "begin_all super_begin fs calls t = Inr this'"
    unfolding call by (auto split: sum.splits)
  from Cons.IH [OF r] begin_keeps [OF t] show ?case by simp
qed

lemma begin_all_no_queries:
  assumes quiet: "\<forall>a s f b b'. super_begin a s f b = Inr b' \<longrightarrow> queries b' = queries b"
  shows "begin_all super_begin fs calls this = Inr this' \<Longrightarrow>
   queries (inherited this') = queries (inherited this)"
proof (induction calls arbitrary: this)
  case Nil
  then show ?case by simp
next
  case (Cons call calls)
  obtain actor st forOpening where call: "call = (actor, st, forOpening)"
    by (cases call)
  from Cons.prems obtain t where
    t: "beginAnimation super_begin fs actor st forOpening this = Inr t"
    and r: "begin_all super_begin fs calls t = Inr this'"
    unfolding call by (auto split: sum.splits)
  from begin_keeps [OF t] obtain b where
    "super_begin actor st forOpening (inherited this) = Inr b" "queries (inherited t) = queries b"
    by blast
  with quiet have "queries (inherited t) = queries (inherited this)"
    by metis
  with Cons.IH [OF r] show ?case by simp
qed

text \<open>
  Claim C8. The constructor asks for the location of each of the eight uniform names
  once, after the constructor of the base class, and stores the eight answers in the
  instance. \<^verbatim>\<open>beginAnimation\<close> leaves the stored locations as they are and asks for no
  location: the queries after the call are those after the hook of the base class. The
  same holds for any number of calls in a row; and where the hook of the base class asks
  for no location either, the queries of the instance after all the calls are those it
  had after construction.
\<close>

theorem locations_resolved_once:
  "(init (Inr b0) = Inr this \<longrightarrow>
      queries (inherited this) = queries b0 @ uniform_names \<and>
      held_locations this = map (program b0) uniform_names) \<and>
   (beginAnimation super_begin fs actor st forOpening this = Inr this' \<longrightarrow>
      held_locations this' = held_locations this \<and>
      (\<exists>b. super_begin actor st forOpening (inherited this) = Inr b \<and>
           queries (inherited this') = queries b)) \<and>
   (begin_all super_begin fs calls this = Inr this'' \<longrightarrow>
      held_locations this'' = held_locations this \<and>
      ((\<forall>a s f b b'. super_begin a s f b = Inr b' \<longrightarrow> queries b' = queries b) \<longrightarrow>
         queries (inherited this'') = queries (inherited this)))"
proof (intro conjI impI)
  assume "init (Inr b0) = Inr this"
  then show "queries (inherited this) = queries b0 @ uniform_names"
    and "held_locations this = map (program b0) uniform_names"
    by (auto simp: init_result held_locations_def uniform_names_def)
next
  assume "beginAnimation super_begin fs actor st forOpening this = Inr this'"
  from begin_keeps [OF this]
  show "held_locations this' = held_locations this"
    and "\<exists>b. super_begin actor st forOpening (inherited this) = Inr b \<and>
           queries (inherited this') = queries b"
    by blast+
next
  assume run: "begin_all super_begin fs calls this = Inr this''"
  then show "held_locations this'' = held_locations this"
    by (rule begin_all_keeps)
  assume "\<forall>a s f b b'. super_begin a s f b = Inr b' \<longrightarrow> queries b' = queries b"
  from begin_all_no_queries [OF this run]
  show "queries (inherited this'') = queries (inherited this)" .
qed


lemma example_quiet:
  "\<forall>a s f b b'. example_super_begin a s f b = Inr b' \<longrightarrow> queries b' = queries b"
  by (auto simp: example_super_begin_def set_uniform_float_def)

lemma example_begin:
  assumes "uGradient this = [0, 1, 2, 3, 4]"
  shows "\<exists>t. beginAnimation example_super_begin example_from_string () example_store f this =
     Inr t \<and> uGradient t = uGradient this"
proof -
  have "example_super_begin () example_store f (inherited this) =
      Inr (set_uniform_float (program (inherited this) ''uForOpening'') 1 [JSBoolean f]
             (inherited this))"
    by (simp add: example_super_begin_def)
  from begin_result [where super_begin = example_super_begin and actor = "()"
      and forOpening = f and fs = example_from_string, OF example_reads assms this]
  show ?thesis
    by simp
qed

theorem locations_resolved_once_witness:
  "init (Inr example_base) = Inr example_instance \<and>
   queries (inherited example_instance) = uniform_names \<and>
   held_locations example_instance = [0, 1, 2, 3, 4, 5, 6, 7] \<and>
   (\<exists>t t2.
      beginAnimation example_super_begin example_from_string () example_store True
        example_instance = Inr t \<and>
      held_locations t = [0, 1, 2, 3, 4, 5, 6, 7] \<and>
      begin_all example_super_begin example_from_string
        [((), example_store, True), ((), example_store, False)] example_instance = Inr t2 \<and>
      held_locations t2 = [0, 1, 2, 3, 4, 5, 6, 7] \<and>
      queries (inherited t2) = uniform_names)"
proof -
  have q: "queries (inherited example_instance) = uniform_names"
    by (simp add: example_instance_def example_base_def)
  have h: "held_locations example_instance = [0, 1, 2, 3, 4, 5, 6, 7]"
    by (simp add: example_instance_def held_locations_def)
  have g: "uGradient example_instance = [0, 1, 2, 3, 4]"
    by (simp add: example_instance_def)
  from example_begin [OF g, of True] obtain t where
    t: "beginAnimation example_super_begin example_from_string () example_store True
          example_instance = Inr t"
    and gt: "uGradient t = [0, 1, 2, 3, 4]"
    using g by auto
  from example_begin [OF gt, of False] obtain t2 where
    t2: "beginAnimation example_super_begin example_from_string () example_store False t = Inr t2"
    by blast
  have all: "begin_all example_super_begin example_from_string
        [((), example_store, True), ((), example_store, False)] example_instance = Inr t2"
    by (simp add: t t2)
  note once = locations_resolved_once [where ?b0.0 = example_base and this = example_instance
      and super_begin = example_super_begin and fs = example_from_string and actor = "()"
      and st = example_store and forOpening = True and this' = t
      and calls = "[((), example_store, True), ((), example_store, False)]" and this'' = t2]
  from once example_fresh t all example_quiet
  have "held_locations t = held_locations example_instance"
    and "held_locations t2 = held_locations example_instance"
    and "queries (inherited t2) = queries (inherited example_instance)"
    by blast+
  with q h have "held_locations t = [0, 1, 2, 3, 4, 5, 6, 7]"
    "held_locations t2 = [0, 1, 2, 3, 4, 5, 6, 7]" "queries (inherited t2) = uniform_names"
    by simp_all
  with example_fresh q h t all show ?thesis
    by blast
qed

section \<open>Configuration changes during an animation\<close>






text \<open>
  A handler connected for an instance does let it observe a later write: with
  \<open>rebind_scale\<close> connected, a write of \<^verbatim>\<open>flame-scale\<close> adds a uniform write.
\<close>

lemma connected_handler_observes:
  "writes (inherited (running (store_step (SetDouble ''flame-scale'' 2)
      \<lparr> settings_object = \<lparr> current = example_store, connected = [rebind_scale] \<rparr>,
        running = example_instance \<rparr>))) =
   writes (inherited example_instance) @ [(6, 1, [2])]"
  by (simp add: store_step_def Let_def rebind_scale_def set_double_def set_value_def
        get_double_def value_of_def example_store_def example_schema_def
        set_uniform_float_def example_instance_def)






section \<open>The factory\<close>

lemma createShader_registry:
  "registry (snd (createShader si this)) =
     (if ShaderClass this = None then registry this @ [''ShaderClass''] else registry this)"
  "ShaderClass (snd (createShader si this)) \<noteq> None"
  by (auto simp: createShader_def registerClass_def Let_def split: sum.splits)

lemma createShader_objects:
  "init si = Inr obj \<Longrightarrow>
   fst (createShader si this) = Inr (length (objects this)) \<and>
   objects (snd (createShader si this)) = objects this @ [obj]"
  "init si = Inl e \<Longrightarrow>
   fst (createShader si this) = Inl e \<and> objects (snd (createShader si this)) = objects this"
  by (auto simp: createShader_def registerClass_def Let_def split: sum.splits)

lemma create_many_Suc:
  "create_many si (Suc n) this =
     (fst (createShader si this) # fst (create_many si n (snd (createShader si this))),
      snd (create_many si n (snd (createShader si this))))"
  by (simp add: split_beta)

lemma create_many_registered:
  "ShaderClass this \<noteq> None \<Longrightarrow> registry (snd (create_many si n this)) = registry this"
proof (induction n arbitrary: this)
  case 0
  then show ?case by simp
next
  case (Suc n)
  have "registry (snd (create_many si n (snd (createShader si this)))) =
        registry (snd (createShader si this))"
    by (rule Suc.IH) (rule createShader_registry)
  with Suc.prems show ?case
    by (simp add: create_many_Suc createShader_registry del: create_many.simps)
qed

lemma create_many_first:
  assumes "ShaderClass this = None"
  shows "registry (snd (create_many si (Suc n) this)) = registry this @ [''ShaderClass'']"
proof -
  have "registry (snd (create_many si n (snd (createShader si this)))) =
        registry (snd (createShader si this))"
    by (rule create_many_registered) (rule createShader_registry)
  with assms show ?thesis
    by (simp add: create_many_Suc createShader_registry del: create_many.simps)
qed

lemma create_many_fresh:
  "init si = Inr obj \<Longrightarrow>
   fst (create_many si n this) = map Inr [length (objects this)..<length (objects this) + n] \<and>
   objects (snd (create_many si n this)) = objects this @ replicate n obj"
proof (induction n arbitrary: this)
  case 0
  then show ?case by simp
next
  case (Suc n)
  from createShader_objects(1) [OF Suc.prems, of this]
  have r: "fst (createShader si this) = Inr (length (objects this))"
    and o: "objects (snd (createShader si this)) = objects this @ [obj]"
    by simp_all
  from Suc.IH [OF Suc.prems, of "snd (createShader si this)"] r o
  show ?case
    by (simp add: create_many_Suc upt_rec [of "length (objects this)"] replicate_app_Cons_same
          del: create_many.simps)
qed

lemma create_many_failed:
  "init si = Inl e \<Longrightarrow> successes (fst (create_many si n this)) = []"
proof (induction n arbitrary: this)
  case 0
  then show ?case by simp
next
  case (Suc n)
  from createShader_objects(2) [OF Suc.prems, of this] Suc.IH [OF Suc.prems]
  show ?case
    by (simp add: create_many_Suc del: create_many.simps)
qed

lemma successes_Inr: "successes (map Inr xs) = xs"
  by (induction xs) simp_all

text \<open>
  Claim C5. On an effect object whose field \<^verbatim>\<open>_ShaderClass\<close> is unset, the first call of
  \<^verbatim>\<open>createShader\<close> registers the class, and however many calls follow, the registry has
  gained that one class only; once the field is set, no call registers anything. Every
  call constructs a new object: the references returned are pairwise different, and
  when the constructor returns, \<open>n\<close> calls return \<open>n\<close> new references, one for each of
  the \<open>n\<close> objects added, every object being a freshly constructed instance.
\<close>

theorem create_shader_fresh:
  "(ShaderClass this = None \<longrightarrow>
      registry (snd (create_many si (Suc n) this)) = registry this @ [''ShaderClass'']) \<and>
   (ShaderClass this \<noteq> None \<longrightarrow> registry (snd (create_many si n this)) = registry this) \<and>
   distinct (successes (fst (create_many si n this))) \<and>
   (init si = Inr obj \<longrightarrow>
      fst (create_many si n this) = map Inr [length (objects this)..<length (objects this) + n] \<and>
      objects (snd (create_many si n this)) = objects this @ replicate n obj)"
proof -
  have "distinct (successes (fst (create_many si n this)))"
  proof (cases "init si")
    case (Inl e)
    then show ?thesis by (simp add: create_many_failed)
  next
    case (Inr obj')
    then show ?thesis by (simp add: create_many_fresh successes_Inr)
  qed
  then show ?thesis
    using create_many_first create_many_registered create_many_fresh by blast
qed

theorem create_shader_fresh_witness:
  "ShaderClass (new_fire :: unit fire) = None \<and>
   ShaderClass (snd (createShader (Inr example_base) (new_fire :: unit fire))) \<noteq> None \<and>
   init (Inr example_base) = Inr example_instance \<and>
   registry (snd (create_many (Inr example_base) 3 new_fire)) = [''ShaderClass''] \<and>
   registry (snd (create_many (Inr example_base) 2
      (snd (createShader (Inr example_base) new_fire)))) = [''ShaderClass''] \<and>
   fst (create_many (Inr example_base) 3 new_fire) = [Inr 0, Inr 1, Inr 2] \<and>
   objects (snd (create_many (Inr example_base) 3 new_fire)) =
     [example_instance, example_instance, example_instance]"
proof -
  have none: "ShaderClass (new_fire :: unit fire) = None"
    by (simp add: new_fire_def)
  have some: "ShaderClass (snd (createShader (Inr example_base) (new_fire :: unit fire))) \<noteq> None"
    by (rule createShader_registry)
  have first: "registry (snd (createShader (Inr example_base) (new_fire :: unit fire))) =
      [''ShaderClass'']"
    by (simp add: createShader_registry new_fire_def)
  have idx: "[0..<3] = [0, 1, 2 :: nat]" by code_simp
  from create_shader_fresh [of new_fire "Inr example_base" 2 example_instance] none example_fresh
  have "registry (snd (create_many (Inr example_base) (Suc 2) (new_fire :: unit fire))) =
      registry (new_fire :: unit fire) @ [''ShaderClass'']"
    by blast
  then have a: "registry (snd (create_many (Inr example_base) 3 (new_fire :: unit fire))) =
      [''ShaderClass'']"
    by (simp add: new_fire_def eval_nat_numeral del: create_many.simps)
  from create_shader_fresh [of "snd (createShader (Inr example_base) new_fire)"
      "Inr example_base" 2 example_instance] some first
  have b: "registry (snd (create_many (Inr example_base) 2
      (snd (createShader (Inr example_base) (new_fire :: unit fire))))) = [''ShaderClass'']"
    by simp
  from create_shader_fresh [of new_fire "Inr example_base" 3 example_instance] example_fresh
  have "fst (create_many (Inr example_base) 3 (new_fire :: unit fire)) =
        map Inr [length (objects (new_fire :: unit fire))..<length (objects (new_fire :: unit fire)) + 3]"
    and "objects (snd (create_many (Inr example_base) 3 (new_fire :: unit fire))) =
        objects new_fire @ replicate 3 example_instance"
    by blast+
  then have c: "fst (create_many (Inr example_base) 3 (new_fire :: unit fire)) = [Inr 0, Inr 1, Inr 2]"
    and d: "objects (snd (create_many (Inr example_base) 3 (new_fire :: unit fire))) =
     [example_instance, example_instance, example_instance]"
    by (simp_all add: new_fire_def idx eval_nat_numeral del: create_many.simps)
  from none some example_fresh a b c d show ?thesis
    by blast
qed

end
